theory Spec2Isabelle
  imports Complex_Main "HOL-Library.Char_ord" "HOL-Library.List_Lexorder"
begin

section \<open>Data model (LocationModel.cpp)\<close>

text \<open>
  The C++ type \<^verbatim>\<open>double\<close> is modelled by \<^typ>\<open>real\<close>. Infinities and NaN are outside
  this development, and every division whose divisor can be zero in the source is guarded
  in the source or written out here. Rounding is modelled in the weighted average of the
  fusion engine only (see there); everywhere else the operations are exact. \<^verbatim>\<open>long long\<close>
  and \<^verbatim>\<open>int\<close> are modelled by \<^typ>\<open>int\<close> (the subtraction of the time filter wraps
  around, see there), \<^verbatim>\<open>size_t\<close> by \<^typ>\<open>nat\<close>.

  The enumerations list the enumerators that the \<^verbatim>\<open>.cpp\<close> files use, followed by those
  that only the header LocationModel.h declares (\<^verbatim>\<open>SENSOR\<close> and \<^verbatim>\<open>OTHER\<close>).
\<close>

datatype DataSourceType =
    GNSS | WIFI | BASE_STATION | BLE | INERTIAL | FUSED | UNKNOWN
  | GPS | BEIDOU | GALILEO | GLONASS | IMU
  | SENSOR | OTHER

datatype LocationStatus = VALID | INVALID | LOW_ACCURACY | ANOMALY | NORMAL

text \<open>
  \<^verbatim>\<open>extras\<close> is a \<^verbatim>\<open>std::map<std::string, std::string>\<close>: here the list of its
  entries in iteration order (ascending key, one entry per key).
\<close>

type_synonym extras_map = "(string \<times> string) list"

record LocationInfo =
  latitude :: real
  longitude :: real
  altitude :: real
  accuracy :: real
  speed :: real
  direction :: real
  timestamp :: int
  sourceType :: DataSourceType
  status :: LocationStatus
  satelliteCount :: int
  signalStrength :: int
  locationType :: string
  provider :: string
  extras :: extras_map

text \<open>\<^verbatim>\<open>LocationInfo::LocationInfo()\<close>, the default constructor.\<close>

definition LocationInfo_default :: LocationInfo where
  "LocationInfo_default =
     \<lparr> latitude = 0, longitude = 0, altitude = 0, accuracy = 0, speed = 0, direction = 0,
       timestamp = 0, sourceType = UNKNOWN, status = INVALID, satelliteCount = 0,
       signalStrength = 0, locationType = [], provider = [], extras = [] \<rparr>"

text \<open>\<^verbatim>\<open>extras[key] = value\<close> on the ordered map.\<close>

fun map_assign :: "string \<Rightarrow> string \<Rightarrow> extras_map \<Rightarrow> extras_map" where
  "map_assign k v [] = [(k, v)]"
| "map_assign k v ((k', v') # m) =
     (if k < k' then (k, v) # (k', v') # m
      else if k = k' then (k, v) # m
      else (k', v') # map_assign k v m)"

definition setExtra :: "string \<Rightarrow> string \<Rightarrow> LocationInfo \<Rightarrow> LocationInfo" where
  "setExtra key val loc = loc\<lparr>extras := map_assign key val (extras loc)\<rparr>"

text \<open>\<^verbatim>\<open>LocationInfo::isValid\<close>.\<close>

definition isValid :: "LocationInfo \<Rightarrow> bool" where
  "isValid loc \<longleftrightarrow>
     status loc = VALID \<and>
     latitude loc \<ge> -90 \<and> latitude loc \<le> 90 \<and>
     longitude loc \<ge> -180 \<and> longitude loc \<le> 180 \<and>
     accuracy loc \<ge> 0 \<and>
     timestamp loc > 0"

section \<open>Utilities (Utils.cpp)\<close>

text \<open>\<^verbatim>\<open>std::atan2(y, x)\<close> on the reals.\<close>

definition atan2 :: "real \<Rightarrow> real \<Rightarrow> real" where
  "atan2 y x =
     (if x > 0 then arctan (y / x)
      else if x < 0 \<and> y \<ge> 0 then arctan (y / x) + pi
      else if x < 0 \<and> y < 0 then arctan (y / x) - pi
      else if y > 0 then pi / 2
      else if y < 0 then - pi / 2
      else 0)"

text \<open>\<^verbatim>\<open>calculateDistance\<close>: the haversine distance in metres.\<close>

definition calculateDistance :: "real \<Rightarrow> real \<Rightarrow> real \<Rightarrow> real \<Rightarrow> real" where
  "calculateDistance lat1 lon1 lat2 lon2 =
     (let R = 6371000;
          radLat1 = lat1 * pi / 180;
          radLon1 = lon1 * pi / 180;
          radLat2 = lat2 * pi / 180;
          radLon2 = lon2 * pi / 180;
          dLat = radLat2 - radLat1;
          dLon = radLon2 - radLon1;
          a = sin (dLat / 2) * sin (dLat / 2) +
              cos radLat1 * cos radLat2 * sin (dLon / 2) * sin (dLon / 2);
          c = 2 * atan2 (sqrt a) (sqrt (1 - a))
      in R * c)"

text \<open>\<^verbatim>\<open>transformLat\<close>, \<^verbatim>\<open>transformLon\<close>, \<^verbatim>\<open>isInsideChina\<close>,
  \<^verbatim>\<open>wgs84ToGcj02\<close> and \<^verbatim>\<open>gcj02ToWgs84\<close>.\<close>

definition transformLat :: "real \<Rightarrow> real \<Rightarrow> real" where
  "transformLat x y =
     (let ret0 = -100 + 2 * x + 3 * y + 0.2 * y * y + 0.1 * x * y + 0.2 * sqrt \<bar>x\<bar>;
          ret1 = ret0 + (20 * sin (6 * x * pi) + 20 * sin (2 * x * pi)) * 2 / 3;
          ret2 = ret1 + (20 * sin (y * pi) + 40 * sin (y / 3 * pi)) * 2 / 3;
          ret3 = ret2 + (160 * sin (y / 12 * pi) + 320 * sin (y * pi / 30)) * 2 / 3
      in ret3)"

definition transformLon :: "real \<Rightarrow> real \<Rightarrow> real" where
  "transformLon x y =
     (let ret0 = 300 + x + 2 * y + 0.1 * x * x + 0.1 * x * y + 0.1 * sqrt \<bar>x\<bar>;
          ret1 = ret0 + (20 * sin (6 * x * pi) + 20 * sin (2 * x * pi)) * 2 / 3;
          ret2 = ret1 + (20 * sin (x * pi) + 40 * sin (x / 3 * pi)) * 2 / 3;
          ret3 = ret2 + (150 * sin (x / 12 * pi) + 300 * sin (x / 30 * pi)) * 2 / 3
      in ret3)"

definition isInsideChina :: "real \<Rightarrow> real \<Rightarrow> bool" where
  "isInsideChina lat lon \<longleftrightarrow>
     lat \<ge> 0.8293 \<and> lat \<le> 55.8271 \<and> lon \<ge> 73.4976 \<and> lon \<le> 135.0841"

text \<open>The offset \<open>(dLat, dLon)\<close> that both conversions compute for a point inside the
  region.\<close>

definition gcjOffset :: "real \<Rightarrow> real \<Rightarrow> real \<times> real" where
  "gcjOffset lat lon =
     (let a = 6378245;
          ee = 0.00669342162296594323;
          dLat0 = transformLat (lon - 105) (lat - 35);
          dLon0 = transformLon (lon - 105) (lat - 35);
          radLat = lat / 180 * pi;
          magic0 = sin radLat;
          magic = 1 - ee * magic0 * magic0;
          sqrtMagic = sqrt magic;
          dLat = (dLat0 * 180) / ((a * (1 - ee)) / (magic * sqrtMagic) * pi);
          dLon = (dLon0 * 180) / (a / sqrtMagic * cos radLat * pi)
      in (dLat, dLon))"

definition wgs84ToGcj02 :: "LocationInfo \<Rightarrow> LocationInfo" where
  "wgs84ToGcj02 wgs84 =
     (let lat = latitude wgs84; lon = longitude wgs84
      in if \<not> isInsideChina lat lon then wgs84
         else (case gcjOffset lat lon of (dLat, dLon) \<Rightarrow>
                 wgs84\<lparr>latitude := lat + dLat, longitude := lon + dLon\<rparr>))"

definition gcj02ToWgs84 :: "LocationInfo \<Rightarrow> LocationInfo" where
  "gcj02ToWgs84 gcj02 =
     (let lat = latitude gcj02; lon = longitude gcj02
      in if \<not> isInsideChina lat lon then gcj02
         else (case gcjOffset lat lon of (dLat, dLon) \<Rightarrow>
                 gcj02\<lparr>latitude := lat - dLat, longitude := lon - dLon\<rparr>))"

text \<open>\<^verbatim>\<open>calculateAverage\<close> and \<^verbatim>\<open>calculateStandardDeviation\<close> (sample standard
  deviation); the accumulation loops are left folds.\<close>

definition calculateAverage :: "real list \<Rightarrow> real" where
  "calculateAverage values =
     (if values = [] then 0
      else foldl (\<lambda>sum v. sum + v) 0 values / real (length values))"

definition calculateStandardDeviation :: "real list \<Rightarrow> real" where
  "calculateStandardDeviation values =
     (if length values < 2 then 0
      else let avg = calculateAverage values;
               sumSquaredDiff = foldl (\<lambda>acc v. acc + (v - avg) * (v - avg)) 0 values
           in sqrt (sumSquaredDiff / real (length values - 1)))"

text \<open>Decimal text of a natural number, as a C++ stream prints an unsigned integer.\<close>

fun show_nat :: "nat \<Rightarrow> string" where
  "show_nat n =
     (if n < 10 then [char_of (48 + n)]
      else show_nat (n div 10) @ [char_of (48 + n mod 10)])"

declare show_nat.simps [simp del]

definition show_int :: "int \<Rightarrow> string" where
  "show_int i = (if i < 0 then CHR ''-'' # show_nat (nat (- i)) else show_nat (nat i))"

text \<open>
  \<^verbatim>\<open>doubleToString(value, precision)\<close> streams the value with \<^verbatim>\<open>std::fixed\<close> and
  \<^verbatim>\<open>std::setprecision(precision)\<close>: the decimal expansion rounded to \<open>precision\<close>
  fractional digits (ties to even), the fraction padded with zeros.
\<close>

definition round_half_even :: "real \<Rightarrow> int" where
  "round_half_even x =
     (let f = \<lfloor>x\<rfloor>; r = x - of_int f
      in if r < 1 / 2 then f
         else if r > 1 / 2 then f + 1
         else if even f then f else f + 1)"

definition pad_zeros :: "nat \<Rightarrow> string \<Rightarrow> string" where
  "pad_zeros n s = replicate (n - length s) (CHR ''0'') @ s"

definition doubleToString :: "real \<Rightarrow> nat \<Rightarrow> string" where
  "doubleToString v precision =
     (let scaled = nat (round_half_even (\<bar>v\<bar> * 10 ^ precision));
          whole = scaled div 10 ^ precision;
          frac = scaled mod 10 ^ precision
      in (if v < 0 then [CHR ''-''] else []) @ show_nat whole @
         (if precision = 0 then [] else CHR ''.'' # pad_zeros precision (show_nat frac)))"

section \<open>Processor stages (DataProcessor.cpp)\<close>

text \<open>
  A call that can end in a \<^verbatim>\<open>std::exception\<close>: \<open>Threw\<close> is the exception, \<open>Returned\<close> the
  normal return.
\<close>

datatype 'a outcome = Returned 'a | Threw

text \<open>
  A call of a virtual function that any subclass may implement: it returns, or it throws
  an exception derived from \<^verbatim>\<open>std::exception\<close>, or it throws anything else. \<open>returned\<close>
  is the value of a call that returns.
\<close>

datatype 'a call = Returns (returned: 'a) | ThrowsStd | ThrowsOther

text \<open>
  \<^verbatim>\<open>BaseDataProcessor::process\<close>. The virtual \<^verbatim>\<open>doProcess\<close> is an argument: it takes the
  stage's state and the copy of the location, and gives the outcome (success flag and the
  copy as it left it) together with the stage's new state. The returned
  \<^verbatim>\<open>shared_ptr\<close> is an option, \<open>None\<close> for \<^verbatim>\<open>nullptr\<close>. The handler is
  \<^verbatim>\<open>catch (const std::exception&)\<close>: any other exception leaves \<^verbatim>\<open>process\<close> with the
  caller. Allocation (\<^verbatim>\<open>std::make_shared\<close>) is taken to succeed.
\<close>

definition BaseDataProcessor_process ::
  "bool \<Rightarrow> ('s \<Rightarrow> LocationInfo \<Rightarrow> (bool \<times> LocationInfo) call \<times> 's) \<Rightarrow>
   's \<Rightarrow> LocationInfo \<Rightarrow> LocationInfo option call \<times> 's" where
  "BaseDataProcessor_process isEnabled doProcess st location =
     (if \<not> isEnabled then (Returns (Some location), st)
      else (case doProcess st location of
              (Returns (success, processedLocation), st') \<Rightarrow>
                 if \<not> success then (Returns (Some location), st')
                 else (Returns (Some processedLocation), st')
            | (ThrowsStd, st') \<Rightarrow> (Returns (Some location), st')
            | (ThrowsOther, st') \<Rightarrow> (ThrowsOther, st')))"

datatype CoordinateSystem = WGS84 | GCJ02

text \<open>The four stages with their parameters; the outlier detector also holds its history.\<close>

datatype ProcessorKind =
    AccuracyFilterProcessor (minAccuracy: real) (maxAccuracy: real)
  | TimeFilterProcessor (maxTimeDiff: int)
  | OutlierDetectionProcessor (thresholdFactor: real) (maxHistorySize: nat)
      (minSampleSize: nat) (history: "LocationInfo list")
  | CoordinateConverterProcessor (sourceSystem: CoordinateSystem)
      (targetSystem: CoordinateSystem)

record DataProcessor =
  enabled :: bool
  priority :: int
  kind :: ProcessorKind



definition new_OutlierDetectionProcessor :: DataProcessor where
  "new_OutlierDetectionProcessor =
     \<lparr> enabled = True, priority = 0, kind = OutlierDetectionProcessor 2 50 5 [] \<rparr>"


text \<open>\<^verbatim>\<open>OutlierDetectionProcessor::trimHistory\<close>: pop the front while the history is too
  long.\<close>

function trimHistory :: "nat \<Rightarrow> LocationInfo list \<Rightarrow> LocationInfo list" where
  "trimHistory maxSize h = (if length h > maxSize then trimHistory maxSize (tl h) else h)"
  by pat_completeness auto
termination
  by (relation "measure (\<lambda>(maxSize, h). length h)") auto

declare trimHistory.simps [simp del]

text \<open>\<^verbatim>\<open>OutlierDetectionProcessor::calculateStatistics\<close> gives
  \<open>(avgLat, avgLon, stdDev)\<close>.\<close>

definition calculateStatistics :: "LocationInfo list \<Rightarrow> real \<times> real \<times> real" where
  "calculateStatistics h =
     (let sumLat = foldl (\<lambda>s loc. s + latitude loc) 0 h;
          sumLon = foldl (\<lambda>s loc. s + longitude loc) 0 h;
          avgLat = sumLat / real (length h);
          avgLon = sumLon / real (length h);
          distances = map (\<lambda>loc. calculateDistance (latitude loc) (longitude loc) avgLat avgLon) h;
          stdDev = calculateStandardDeviation distances
      in (avgLat, avgLon, if stdDev < 0.0001 then 1 else stdDev))"

text \<open>
  \<^verbatim>\<open>doProcess\<close> of the four stages. \<open>now\<close> is what \<^verbatim>\<open>getCurrentTimestampMs()\<close> returns.
  None of them throws, so each is a call that returns.
\<close>

text \<open>
  The value of a \<^verbatim>\<open>long long\<close> computation whose exact result is \<open>x\<close>: on overflow the
  compiled subtraction wraps around modulo \<open>2 ^ 64\<close> (the language leaves it undefined).
\<close>

definition wrap_int64 :: "int \<Rightarrow> int" where
  "wrap_int64 x = (x + 2 ^ 63) mod 2 ^ 64 - 2 ^ 63"

definition AccuracyFilter_doProcess :: "real \<Rightarrow> real \<Rightarrow> LocationInfo \<Rightarrow> bool \<times> LocationInfo" where
  "AccuracyFilter_doProcess minAcc maxAcc location =
     (True, if accuracy location < minAcc \<or> accuracy location > maxAcc
            then location\<lparr>status := LOW_ACCURACY\<rparr> else location)"

definition TimeFilter_doProcess :: "int \<Rightarrow> int \<Rightarrow> LocationInfo \<Rightarrow> bool \<times> LocationInfo" where
  "TimeFilter_doProcess now maxDiff location =
     (let currentTime = now; timeDiff = wrap_int64 (currentTime - timestamp location)
      in (True, if timeDiff > maxDiff then location\<lparr>status := INVALID\<rparr> else location))"

definition OutlierDetection_doProcess ::
  "real \<Rightarrow> nat \<Rightarrow> nat \<Rightarrow> LocationInfo list \<Rightarrow> LocationInfo \<Rightarrow>
   (bool \<times> LocationInfo) \<times> LocationInfo list" where
  "OutlierDetection_doProcess factor maxSize minSize h location =
     (if \<not> isValid location then ((True, location), h)
      else if length h < minSize then ((True, location), h @ [location])
      else (case calculateStatistics h of (avgLat, avgLon, stdDev) \<Rightarrow>
        let distance = calculateDistance (latitude location) (longitude location) avgLat avgLon
        in if distance > factor * stdDev
           then ((True,
                  setExtra ''threshold'' (doubleToString (factor * stdDev) 2)
                    (setExtra ''outlierDistance'' (doubleToString distance 2)
                      (setExtra ''isOutlier'' ''true'' (location\<lparr>status := ANOMALY\<rparr>)))), h)
           else ((True, location), trimHistory maxSize (h @ [location]))))"

definition CoordinateConverter_doProcess ::
  "CoordinateSystem \<Rightarrow> CoordinateSystem \<Rightarrow> LocationInfo \<Rightarrow> bool \<times> LocationInfo" where
  "CoordinateConverter_doProcess src dest location =
     (if src = dest then (True, location)
      else if src = WGS84 \<and> dest = GCJ02 then
        (let gcj02 = wgs84ToGcj02 location
         in (True, setExtra ''coordinateSystem'' ''GCJ02''
                     (location\<lparr>latitude := latitude gcj02, longitude := longitude gcj02\<rparr>)))
      else if src = GCJ02 \<and> dest = WGS84 then
        (let wgs84 = gcj02ToWgs84 location
         in (True, setExtra ''coordinateSystem'' ''WGS84''
                     (location\<lparr>latitude := latitude wgs84, longitude := longitude wgs84\<rparr>)))
      else (True, location))"

fun doProcess ::
  "int \<Rightarrow> ProcessorKind \<Rightarrow> LocationInfo \<Rightarrow> (bool \<times> LocationInfo) call \<times> ProcessorKind" where
  "doProcess now (AccuracyFilterProcessor minAcc maxAcc) location =
     (Returns (AccuracyFilter_doProcess minAcc maxAcc location),
      AccuracyFilterProcessor minAcc maxAcc)"
| "doProcess now (TimeFilterProcessor maxDiff) location =
     (Returns (TimeFilter_doProcess now maxDiff location), TimeFilterProcessor maxDiff)"
| "doProcess now (OutlierDetectionProcessor factor maxSize minSize h) location =
     (case OutlierDetection_doProcess factor maxSize minSize h location of
        (r, h') \<Rightarrow> (Returns r, OutlierDetectionProcessor factor maxSize minSize h'))"
| "doProcess now (CoordinateConverterProcessor src dest) location =
     (Returns (CoordinateConverter_doProcess src dest location),
      CoordinateConverterProcessor src dest)"

text \<open>\<^verbatim>\<open>processor->process(location)\<close> for a stage of the chain: the stage is one of the
  four, whose \<^verbatim>\<open>doProcess\<close> returns, so the call returns.\<close>

definition process :: "int \<Rightarrow> DataProcessor \<Rightarrow> LocationInfo \<Rightarrow> LocationInfo option \<times> DataProcessor" where
  "process now p location =
     (case BaseDataProcessor_process (enabled p) (doProcess now) (kind p) location of
        (r, k') \<Rightarrow> (returned r, p\<lparr>kind := k'\<rparr>))"

text \<open>The setters and \<^verbatim>\<open>clearHistory\<close> of the outlier detector.\<close>

fun setThresholdFactor :: "real \<Rightarrow> ProcessorKind \<Rightarrow> ProcessorKind" where
  "setThresholdFactor factor (OutlierDetectionProcessor f maxSize minSize h) =
     OutlierDetectionProcessor (max 1 factor) maxSize minSize h"
| "setThresholdFactor factor k = k"

fun setMaxHistorySize :: "nat \<Rightarrow> ProcessorKind \<Rightarrow> ProcessorKind" where
  "setMaxHistorySize sz (OutlierDetectionProcessor f maxSize minSize h) =
     (let maxSize' = max minSize sz
      in OutlierDetectionProcessor f maxSize' minSize (trimHistory maxSize' h))"
| "setMaxHistorySize sz k = k"

fun clearHistory :: "ProcessorKind \<Rightarrow> ProcessorKind" where
  "clearHistory (OutlierDetectionProcessor f maxSize minSize h) =
     OutlierDetectionProcessor f maxSize minSize []"
| "clearHistory k = k"

section \<open>The processor chain (DataProcessor.cpp)\<close>








section \<open>The statistical anomaly detector (AnomalyDetector.cpp)\<close>

record AnomalyResult =
  isAnomaly :: bool
  confidence :: real
  anomalyInfo :: "(string \<times> string) list"

text \<open>The result that every detector starts from: not an anomaly, confidence \<open>0.0\<close>.\<close>

definition AnomalyResult_init :: AnomalyResult where
  "AnomalyResult_init = \<lparr> isAnomaly = False, confidence = 0, anomalyInfo = [] \<rparr>"

text \<open>
  \<^verbatim>\<open>AnomalyDetector::detectAnomaly\<close>, the wrapper every detector shares; the virtual
  \<^verbatim>\<open>doDetectAnomaly\<close> is an argument. An exception leaves the initial result.
\<close>

definition detectAnomaly ::
  "bool \<Rightarrow> nat \<Rightarrow> ('s \<Rightarrow> LocationInfo \<Rightarrow> LocationInfo list \<Rightarrow> AnomalyResult outcome \<times> 's) \<Rightarrow>
   's \<Rightarrow> LocationInfo \<Rightarrow> LocationInfo list \<Rightarrow> AnomalyResult \<times> 's" where
  "detectAnomaly isEnabled minSamples doDetect st location context =
     (if \<not> isEnabled \<or> length context < minSamples then (AnomalyResult_init, st)
      else (case doDetect st location context of
              (Returned result, st') \<Rightarrow> (result, st')
            | (Threw, st') \<Rightarrow> (AnomalyResult_init, st')))"

text \<open>
  Modelled from the spec: \<^verbatim>\<open>calculateMean\<close> and the two-argument
  \<^verbatim>\<open>calculateStandardDeviation(values, mean)\<close> that the statistical detector calls are not
  in the sources. The spec's "window mean/stddev" is taken as the arithmetic mean and the
  sample standard deviation around the given mean, as \<^verbatim>\<open>calculateAverage\<close> and the
  one-argument \<^verbatim>\<open>calculateStandardDeviation\<close> of Utils.cpp compute them.
\<close>

definition calculateMean :: "real list \<Rightarrow> real" where
  "calculateMean values = calculateAverage values"

definition calculateStandardDeviation2 :: "real list \<Rightarrow> real \<Rightarrow> real" where
  "calculateStandardDeviation2 values mean =
     (if length values < 2 then 0
      else let sumSquaredDiff = foldl (\<lambda>acc v. acc + (v - mean) * (v - mean)) 0 values
           in sqrt (sumSquaredDiff / real (length values - 1)))"

record StatisticalAnomalyDetector =
  sd_enabled :: bool
  sd_minSampleSize :: nat
  zScoreThreshold :: real
  historySize :: nat
  sd_history :: "LocationInfo list"

text \<open>The constructor: z-score threshold \<open>2.0\<close>, history size \<open>50\<close>, and the base class's
  minimum sample size \<open>5\<close>.\<close>

definition new_StatisticalAnomalyDetector :: StatisticalAnomalyDetector where
  "new_StatisticalAnomalyDetector =
     \<lparr> sd_enabled = True, sd_minSampleSize = 5, zScoreThreshold = 2, historySize = 50,
       sd_history = [] \<rparr>"

definition setZScoreThreshold :: "real \<Rightarrow> StatisticalAnomalyDetector \<Rightarrow> StatisticalAnomalyDetector" where
  "setZScoreThreshold t d = d\<lparr>zScoreThreshold := max 0 t\<rparr>"

definition addLocationToHistory ::
  "LocationInfo \<Rightarrow> StatisticalAnomalyDetector \<Rightarrow> StatisticalAnomalyDetector" where
  "addLocationToHistory location d =
     d\<lparr>sd_history := trimHistory (historySize d) (sd_history d @ [location])\<rparr>"

text \<open>The z-score of one coordinate: \<open>0\<close> unless the standard deviation is positive.\<close>

definition zScore :: "real \<Rightarrow> real \<Rightarrow> real \<Rightarrow> real" where
  "zScore x mean stdDev = (if stdDev > 0 then \<bar>x - mean\<bar> / stdDev else 0)"

text \<open>
  \<^verbatim>\<open>StatisticalAnomalyDetector::doDetectAnomaly\<close>. The confidence divides by the
  threshold, which the setter keeps at \<open>0\<close> or more; for the threshold \<open>0.0\<close> the quotient
  of the doubles is infinite or not a number and \<^verbatim>\<open>std::min(1.0, _)\<close> gives \<open>1.0\<close>.
\<close>

definition Statistical_doDetectAnomaly ::
  "StatisticalAnomalyDetector \<Rightarrow> LocationInfo \<Rightarrow> LocationInfo list \<Rightarrow>
   AnomalyResult outcome \<times> StatisticalAnomalyDetector" where
  "Statistical_doDetectAnomaly d location context =
     (let combinedContext = context @ sd_history d
      in if length combinedContext < sd_minSampleSize d
         then (Returned AnomalyResult_init, addLocationToHistory location d)
         else
           let latitudes = map latitude combinedContext;
               longitudes = map longitude combinedContext;
               accuracies = map accuracy combinedContext;
               meanLat = calculateMean latitudes;
               meanLon = calculateMean longitudes;
               meanAccuracy = calculateMean accuracies;
               stdDevLat = calculateStandardDeviation2 latitudes meanLat;
               stdDevLon = calculateStandardDeviation2 longitudes meanLon;
               stdDevAccuracy = calculateStandardDeviation2 accuracies meanAccuracy;
               zScoreLat = zScore (latitude location) meanLat stdDevLat;
               zScoreLon = zScore (longitude location) meanLon stdDevLon;
               zScoreAccuracy = zScore (accuracy location) meanAccuracy stdDevAccuracy;
               isLatAnomaly = zScoreLat > zScoreThreshold d;
               isLonAnomaly = zScoreLon > zScoreThreshold d;
               isAccuracyAnomaly = zScoreAccuracy > zScoreThreshold d * 2;
               anomaly = isLatAnomaly \<or> isLonAnomaly \<or> isAccuracyAnomaly;
               maxZScore = max (max zScoreLat zScoreLon) (zScoreAccuracy / 2);
               conf = (if zScoreThreshold d = 0 then 1
                       else min 1 ((maxZScore - zScoreThreshold d) / zScoreThreshold d));
               info = (if anomaly
                       then map_assign ''threshold'' (doubleToString (zScoreThreshold d) 2)
                             (map_assign ''zScoreAccuracy'' (doubleToString zScoreAccuracy 2)
                               (map_assign ''zScoreLon'' (doubleToString zScoreLon 2)
                                 (map_assign ''zScoreLat'' (doubleToString zScoreLat 2)
                                   (map_assign ''type'' ''STATISTICAL'' []))))
                       else [])
           in (Returned \<lparr> isAnomaly = anomaly, confidence = conf, anomalyInfo = info \<rparr>,
               if \<not> anomaly then addLocationToHistory location d else d))"

definition Statistical_detectAnomaly ::
  "StatisticalAnomalyDetector \<Rightarrow> LocationInfo \<Rightarrow> LocationInfo list \<Rightarrow>
   AnomalyResult \<times> StatisticalAnomalyDetector" where
  "Statistical_detectAnomaly d location context =
     detectAnomaly (sd_enabled d) (sd_minSampleSize d) Statistical_doDetectAnomaly d
       location context"

section \<open>Fusion (DataFusion.cpp)\<close>

datatype FusionStrategy = PRIORITY_BASED | WEIGHTED_AVERAGE | ADAPTIVE

datatype WeightStrategy = EQUAL_WEIGHT | ACCURACY_BASED | CUSTOM

text \<open>
  The string helpers that DataFusion.cpp calls and the sources do not define are
  arguments of the model, collected in one record.
\<close>

record Helpers =
  dataSourceTypeToString :: "DataSourceType \<Rightarrow> string"
  weightStrategyToString :: "WeightStrategy \<Rightarrow> string"
  fusionStrategyToString :: "FusionStrategy \<Rightarrow> string"
  sizeToString :: "nat \<Rightarrow> string"
  intToString :: "int \<Rightarrow> string"

record DataFusion =
  fusionEnabled :: bool
  minRequiredSources :: nat
  fusionStrategy :: FusionStrategy

text \<open>\<^verbatim>\<open>DataFusion::DataFusion()\<close> and \<^verbatim>\<open>setMinRequiredSources\<close>.\<close>

definition new_DataFusion :: DataFusion where
  "new_DataFusion =
     \<lparr> fusionEnabled = True, minRequiredSources = 2, fusionStrategy = WEIGHTED_AVERAGE \<rparr>"


text \<open>
  \<^verbatim>\<open>DataFusion::fuse\<close>; the virtual \<^verbatim>\<open>doFuse\<close> is an argument. \<open>None\<close> is \<^verbatim>\<open>nullptr\<close>.
\<close>

definition fuse ::
  "Helpers \<Rightarrow> DataFusion \<Rightarrow> (LocationInfo list \<Rightarrow> LocationInfo option outcome) \<Rightarrow>
   LocationInfo list \<Rightarrow> LocationInfo option" where
  "fuse H f doFuse locations =
     (if \<not> fusionEnabled f then None
      else if length locations < minRequiredSources f then None
      else
        let validLocations = filter (\<lambda>location. isValid location \<and> status location \<noteq> ANOMALY)
                               locations
        in if length validLocations < minRequiredSources f then None
           else (case doFuse validLocations of
                   Threw \<Rightarrow> None
                 | Returned None \<Rightarrow> None
                 | Returned (Some fusedLocation) \<Rightarrow>
                     Some (setExtra ''sourceCount'' (sizeToString H (length validLocations))
                            (setExtra ''fusionStrategy''
                               (fusionStrategyToString H (fusionStrategy f))
                               (fusedLocation\<lparr>status := NORMAL, sourceType := FUSED\<rparr>)))))"

subsection \<open>Priority-based fusion\<close>

text \<open>The priorities the constructor of \<^verbatim>\<open>PriorityBasedFusion\<close> sets.\<close>

definition defaultPriorities :: "DataSourceType \<Rightarrow> int option" where
  "defaultPriorities =
     [GNSS \<mapsto> 100, WIFI \<mapsto> 80, BASE_STATION \<mapsto> 60, BLE \<mapsto> 40, INERTIAL \<mapsto> 20]"

definition setSourcePriority ::
  "DataSourceType \<Rightarrow> int \<Rightarrow> (DataSourceType \<Rightarrow> int option) \<Rightarrow> (DataSourceType \<Rightarrow> int option)" where
  "setSourcePriority t p sourcePriorities = sourcePriorities(t \<mapsto> p)"

definition getSourcePriority :: "(DataSourceType \<Rightarrow> int option) \<Rightarrow> DataSourceType \<Rightarrow> int" where
  "getSourcePriority sourcePriorities t =
     (case sourcePriorities t of Some p \<Rightarrow> p | None \<Rightarrow> 0)"

text \<open>The comparator of the sort: higher priority first, then smaller accuracy value.\<close>

definition priorityBefore ::
  "(DataSourceType \<Rightarrow> int option) \<Rightarrow> LocationInfo \<Rightarrow> LocationInfo \<Rightarrow> bool" where
  "priorityBefore sp a b =
     (let priorityA = getSourcePriority sp (sourceType a);
          priorityB = getSourcePriority sp (sourceType b)
      in if priorityA \<noteq> priorityB then priorityA > priorityB
         else accuracy a < accuracy b)"

text \<open>
  \<^verbatim>\<open>std::sort\<close> with a comparator, as an insertion sort; elements that the comparator
  does not order keep their order here (\<^verbatim>\<open>std::sort\<close> leaves it unspecified).
\<close>

fun insert_sorted :: "('a \<Rightarrow> 'a \<Rightarrow> bool) \<Rightarrow> 'a \<Rightarrow> 'a list \<Rightarrow> 'a list" where
  "insert_sorted before x [] = [x]"
| "insert_sorted before x (y # ys) =
     (if \<not> before y x then x # y # ys else y # insert_sorted before x ys)"

definition std_sort :: "('a \<Rightarrow> 'a \<Rightarrow> bool) \<Rightarrow> 'a list \<Rightarrow> 'a list" where
  "std_sort before xs = foldr (insert_sorted before) xs []"

text \<open>
  \<^verbatim>\<open>PriorityBasedFusion::doFuse\<close>. On an empty vector the source reads
  \<^verbatim>\<open>sortedLocations[0]\<close>, which is undefined; \<^verbatim>\<open>fuse\<close> never passes one, since
  \<^verbatim>\<open>minRequiredSources\<close> is at least 1. The model gives \<open>Threw\<close> there.
\<close>

definition PriorityBased_doFuse ::
  "Helpers \<Rightarrow> (DataSourceType \<Rightarrow> int option) \<Rightarrow> LocationInfo list \<Rightarrow> LocationInfo option outcome" where
  "PriorityBased_doFuse H sp locations =
     (case std_sort (priorityBefore sp) locations of
        [] \<Rightarrow> Threw
      | selected # _ \<Rightarrow>
          Returned (Some
            (setExtra ''selectedSourcePriority''
               (intToString H (getSourcePriority sp (sourceType selected)))
               (setExtra ''selectedSourceType'' (dataSourceTypeToString H (sourceType selected))
                  (setExtra ''fusionType'' ''PRIORITY_BASED'' selected)))))"

subsection \<open>Weighted-average fusion\<close>

record WeightedAverageFusion =
  weightStrategy :: WeightStrategy
  customWeights :: "DataSourceType \<Rightarrow> real option"

text \<open>The constructor, \<^verbatim>\<open>setWeightStrategy\<close>, \<^verbatim>\<open>setCustomWeight\<close> and
  \<^verbatim>\<open>getCustomWeight\<close>.\<close>

definition new_WeightedAverageFusion :: WeightedAverageFusion where
  "new_WeightedAverageFusion = \<lparr> weightStrategy = ACCURACY_BASED, customWeights = Map.empty \<rparr>"



definition getCustomWeight :: "WeightedAverageFusion \<Rightarrow> DataSourceType \<Rightarrow> real" where
  "getCustomWeight w t = (case customWeights w t of Some x \<Rightarrow> x | None \<Rightarrow> 1)"

text \<open>
  Arithmetic on \<^verbatim>\<open>double\<close>. Elsewhere in this theory a \<^verbatim>\<open>double\<close> is a real number and its
  operations are exact. In the weighted average the rounding decides whether the result
  stays between its contributors, so there the result of every operation goes through a
  rounding function \<open>rnd\<close>, an argument of the model: \<open>exact\<close> leaves it as it is, and
  \<open>binary64\<close> rounds it to the nearest number of the IEEE 754 double format, ties to even:
  53 significant bits for magnitudes from \<open>1 / 2 ^ 1022\<close> upwards, and the multiples of
  \<open>1 / 2 ^ 1074\<close> below (the subnormal numbers). Where the rounded magnitude
  would reach \<open>2 ^ 1024\<close> the format gives an infinity, and a later quotient of two
  infinities is not a number; the reals have neither, so there \<open>binary64\<close> is not the
  operation of the source. What is proved below for rounded arithmetic keeps every
  operand under \<open>2 ^ 1023\<close>.
\<close>

abbreviation (input) exact :: "real \<Rightarrow> real" where
  "exact \<equiv> (\<lambda>x. x)"




text \<open>\<^verbatim>\<open>WeightedAverageFusion::calculateWeights\<close>.\<close>

definition calculateWeights ::
  "(real \<Rightarrow> real) \<Rightarrow> WeightedAverageFusion \<Rightarrow> LocationInfo list \<Rightarrow> real list" where
  "calculateWeights rnd w locations =
     (case weightStrategy w of
        EQUAL_WEIGHT \<Rightarrow> map (\<lambda>location. rnd (1 / real (length locations))) locations
      | ACCURACY_BASED \<Rightarrow>
          (let totalAccuracyInverse =
                 foldl (\<lambda>total location.
                          if accuracy location > 0 then rnd (total + rnd (1 / accuracy location))
                          else rnd (total + 1)) 0 locations
           in map (\<lambda>location.
                     if totalAccuracyInverse > 0 then
                       (if accuracy location > 0
                        then rnd (rnd (1 / accuracy location) / totalAccuracyInverse)
                        else rnd (1 / totalAccuracyInverse))
                     else rnd (1 / real (length locations))) locations)
      | CUSTOM \<Rightarrow>
          (let totalCustomWeight =
                 foldl (\<lambda>total location. rnd (total + getCustomWeight w (sourceType location)))
                   0 locations
           in map (\<lambda>location.
                     if totalCustomWeight > 0
                     then rnd (getCustomWeight w (sourceType location) / totalCustomWeight)
                     else rnd (1 / real (length locations))) locations))"

text \<open>The text of the \<^verbatim>\<open>weights\<close> extra: \<^verbatim>\<open>[GNSS:0.800, WIFI:0.200]\<close>.\<close>

fun join_comma :: "string list \<Rightarrow> string" where
  "join_comma [] = []"
| "join_comma [s] = s"
| "join_comma (s # t # ss) = s @ '', '' @ join_comma (t # ss)"

definition weightInfo :: "Helpers \<Rightarrow> LocationInfo list \<Rightarrow> real list \<Rightarrow> string" where
  "weightInfo H locations weights =
     ''['' @ join_comma (map (\<lambda>(location, weight).
               dataSourceTypeToString H (sourceType location) @ '':'' @ doubleToString weight 3)
             (zip locations weights)) @ '']''"

text \<open>
  \<^verbatim>\<open>WeightedAverageFusion::doFuse\<close>. The loop over the indices adds to four accumulators;
  each is the left fold of its summand over the locations paired with their weights.
  \<open>now\<close> is what \<^verbatim>\<open>getCurrentTimestampMs()\<close> returns.
\<close>

definition WeightedAverage_doFuse ::
  "(real \<Rightarrow> real) \<Rightarrow> Helpers \<Rightarrow> int \<Rightarrow> WeightedAverageFusion \<Rightarrow> LocationInfo list \<Rightarrow>
   LocationInfo option outcome" where
  "WeightedAverage_doFuse rnd H now w locations =
     (let weights = calculateWeights rnd w locations;
          lw = zip locations weights;
          weightedLat = foldl (\<lambda>acc (l, wt). rnd (acc + rnd (latitude l * wt))) 0 lw;
          weightedLon = foldl (\<lambda>acc (l, wt). rnd (acc + rnd (longitude l * wt))) 0 lw;
          weightedAlt = foldl (\<lambda>acc (l, wt). rnd (acc + rnd (altitude l * wt))) 0 lw;
          weightedAccuracy =
            foldl (\<lambda>acc (l, wt). if accuracy l > 0 then rnd (acc + rnd (wt / accuracy l))
                                  else acc) 0 lw;
          fusedAccuracy =
            (if weightedAccuracy > 0 then rnd (1 / weightedAccuracy)
             else rnd (foldl (\<lambda>avg l. rnd (avg + accuracy l)) 0 locations /
                       real (length locations)));
          fusedLocation = LocationInfo_default
            \<lparr> timestamp := now, latitude := weightedLat, longitude := weightedLon,
              altitude := weightedAlt, accuracy := fusedAccuracy \<rparr>
      in Returned (Some
           (setExtra ''weights'' (weightInfo H locations weights)
              (setExtra ''weightStrategy'' (weightStrategyToString H (weightStrategy w))
                 (setExtra ''fusionType'' ''WEIGHTED_AVERAGE'' fusedLocation)))))"

section \<open>The file store's line format (DataStorage.cpp)\<close>

text \<open>
  What the C++ library and the enumeration declarations contribute to a line is an
  argument of the model: the text \<^verbatim>\<open>operator<<\<close> writes for a \<^verbatim>\<open>double\<close>, \<^verbatim>\<open>std::stod\<close>
  (\<open>None\<close> when it throws), and the integer codes of the enumerators with the casts back.
\<close>

record StreamLib =
  showDouble :: "real \<Rightarrow> string"
  stod :: "string \<Rightarrow> real option"
  sourceTypeToInt :: "DataSourceType \<Rightarrow> int"
  intToSourceType :: "int \<Rightarrow> DataSourceType"
  statusToInt :: "LocationStatus \<Rightarrow> int"
  intToStatus :: "int \<Rightarrow> LocationStatus"

text \<open>
  \<^verbatim>\<open>std::stoll\<close> and \<^verbatim>\<open>std::stoi\<close> in base 10: leading white space, an optional sign, then
  digits up to the first other character; \<open>None\<close> when there is no digit
  (\<^verbatim>\<open>std::invalid_argument\<close>) or the value does not fit (\<^verbatim>\<open>std::out_of_range\<close>).
\<close>

definition isspace :: "char \<Rightarrow> bool" where
  "isspace c \<longleftrightarrow> c \<in> {CHR '' '', CHR 0x09, CHR 0x0A, CHR 0x0B, CHR 0x0C, CHR 0x0D}"

definition isdigit :: "char \<Rightarrow> bool" where
  "isdigit c \<longleftrightarrow> CHR ''0'' \<le> c \<and> c \<le> CHR ''9''"

definition digits_value :: "string \<Rightarrow> int" where
  "digits_value ds = foldl (\<lambda>acc c. 10 * acc + (of_char c - 48)) 0 ds"

definition parse_integer :: "int \<Rightarrow> int \<Rightarrow> string \<Rightarrow> int option" where
  "parse_integer lo hi s =
     (let s1 = dropWhile isspace s;
          (negative, s2) = (case s1 of
                              c # r \<Rightarrow> if c = CHR ''-'' then (True, r)
                                       else if c = CHR ''+'' then (False, r)
                                       else (False, s1)
                            | [] \<Rightarrow> (False, s1));
          ds = takeWhile isdigit s2
      in if ds = [] then None
         else let v = (if negative then - digits_value ds else digits_value ds)
              in if v < lo \<or> v > hi then None else Some v)"

definition stoll :: "string \<Rightarrow> int option" where
  "stoll s = parse_integer (- (2 ^ 63)) (2 ^ 63 - 1) s"

definition stoi :: "string \<Rightarrow> int option" where
  "stoi s = parse_integer (- (2 ^ 31)) (2 ^ 31 - 1) s"

text \<open>\<^verbatim>\<open>FileStorage::serializeLocation\<close>.\<close>

definition serializeLocation :: "StreamLib \<Rightarrow> LocationInfo \<Rightarrow> string" where
  "serializeLocation L location =
     show_int (timestamp location) @ '','' @
     showDouble L (latitude location) @ '','' @
     showDouble L (longitude location) @ '','' @
     showDouble L (altitude location) @ '','' @
     showDouble L (accuracy location) @ '','' @
     show_int (sourceTypeToInt L (sourceType location)) @ '','' @
     show_int (statusToInt L (status location)) @
     concat (map (\<lambda>(key, val). '',['' @ key @ '':'' @ val @ '']'') (extras location))"

text \<open>
  The tokens that successive \<^verbatim>\<open>std::getline(ss, token, ',')\<close> calls extract: the pieces
  between the commas; after the last piece, or on an empty rest, the call fails.
\<close>

function getline_tokens :: "string \<Rightarrow> string list" where
  "getline_tokens s =
     (if s = [] then []
      else let token = takeWhile (\<lambda>c. c \<noteq> CHR '','') s;
               rest = dropWhile (\<lambda>c. c \<noteq> CHR '','') s
           in (case rest of [] \<Rightarrow> [token] | _ # rest' \<Rightarrow> token # getline_tokens rest'))"
  by pat_completeness auto
termination
proof (relation "measure length")
  show "wf (measure length)" by simp
next
  fix s :: string and x xa x21 x22
  assume "xa = dropWhile (\<lambda>c. c \<noteq> CHR '','') s" and "xa = x21 # x22"
  then have "length (x21 # x22) \<le> length s"
    using length_dropWhile_le [of "\<lambda>c. c \<noteq> CHR '',''" s] by simp
  then show "(x22, s) \<in> measure length" by simp
qed

declare getline_tokens.simps [simp del]

text \<open>The seven fixed fields, each set from its token; \<open>None\<close> when the conversion throws.\<close>

definition fixedFields :: "StreamLib \<Rightarrow> (string \<Rightarrow> LocationInfo \<Rightarrow> LocationInfo option) list" where
  "fixedFields L =
     [\<lambda>token location. map_option (\<lambda>v. location\<lparr>timestamp := v\<rparr>) (stoll token),
      \<lambda>token location. map_option (\<lambda>v. location\<lparr>latitude := v\<rparr>) (stod L token),
      \<lambda>token location. map_option (\<lambda>v. location\<lparr>longitude := v\<rparr>) (stod L token),
      \<lambda>token location. map_option (\<lambda>v. location\<lparr>altitude := v\<rparr>) (stod L token),
      \<lambda>token location. map_option (\<lambda>v. location\<lparr>accuracy := v\<rparr>) (stod L token),
      \<lambda>token location. map_option (\<lambda>v. location\<lparr>sourceType := intToSourceType L v\<rparr>)
                          (stoi token),
      \<lambda>token location. map_option (\<lambda>v. location\<lparr>status := intToStatus L v\<rparr>) (stoi token)]"

text \<open>
  The chain of \<^verbatim>\<open>if (std::getline(...)) field = convert(token)\<close> statements: once a
  \<^verbatim>\<open>getline\<close> fails the later ones fail too. The result is the location and the tokens
  left for the extras loop.
\<close>

fun parseFixed ::
  "(string \<Rightarrow> LocationInfo \<Rightarrow> LocationInfo option) list \<Rightarrow> string list \<Rightarrow> LocationInfo \<Rightarrow>
   (LocationInfo \<times> string list) outcome" where
  "parseFixed [] tokens location = Returned (location, tokens)"
| "parseFixed (f # fs) [] location = Returned (location, [])"
| "parseFixed (f # fs) (token # tokens) location =
     (case f token location of
        None \<Rightarrow> Threw
      | Some location' \<Rightarrow> parseFixed fs tokens location')"

text \<open>One round of the extras loop, and \<^verbatim>\<open>std::string::find(':')\<close> as the length of the
  prefix before the first colon.\<close>

definition parseExtra :: "string \<Rightarrow> LocationInfo \<Rightarrow> LocationInfo" where
  "parseExtra token location =
     (if length token \<ge> 3 \<and> hd token = CHR ''['' \<and> last token = CHR '']'' then
        (let kv = take (length token - 2) (drop 1 token);
             colonPos = length (takeWhile (\<lambda>c. c \<noteq> CHR '':'') kv)
         in if colonPos < length kv
            then setExtra (take colonPos kv) (drop (colonPos + 1) kv) location
            else location)
      else location)"

text \<open>\<^verbatim>\<open>FileStorage::deserializeLocation\<close>.\<close>

definition deserializeLocation :: "StreamLib \<Rightarrow> string \<Rightarrow> LocationInfo outcome" where
  "deserializeLocation L data =
     (case parseFixed (fixedFields L) (getline_tokens data) LocationInfo_default of
        Threw \<Rightarrow> Threw
      | Returned (location, tokens) \<Rightarrow>
          Returned (foldl (\<lambda>loc token. parseExtra token loc) location tokens))"

section \<open>The ingest queue (LocationService.cpp)\<close>

text \<open>
  The data of \<^verbatim>\<open>BaseLocationService\<close> that its member functions read and write: the
  running flag, the queue bound of the configuration, the queue, the last location, and
  the queue's mutex. \<open>queueMutex_held\<close> says that a thread holds \<^verbatim>\<open>queueMutex_\<close>. A
  \<^verbatim>\<open>std::lock_guard\<close> on a mutex that another thread holds waits until it is released: a
  call made in such a state has no result here (\<open>None\<close>). The other mutexes, the thread
  object and the collaborators have no state in the model.
\<close>

record BaseLocationService =
  isRunning :: bool
  maxQueueSize :: nat
  enableHistoryStorage :: bool
  locationDataQueue :: "LocationInfo list"
  lastLocation :: "LocationInfo option"
  queueMutex_held :: bool



definition processingLoop_release :: "BaseLocationService \<Rightarrow> BaseLocationService" where
  "processingLoop_release s = s\<lparr>queueMutex_held := False\<rparr>"

section \<open>Concrete inputs\<close>

text \<open>A valid GNSS fix at 35 N, 105 E with accuracy 5 m, captured at time 1000.\<close>

definition fix_gnss :: LocationInfo where
  "fix_gnss = LocationInfo_default
     \<lparr> latitude := 35, longitude := 105, accuracy := 5, timestamp := 1000,
       sourceType := GNSS, status := VALID \<rparr>"

text \<open>The same fix with accuracy \<open>0\<close>.\<close>

definition fix_zero_accuracy :: LocationInfo where
  "fix_zero_accuracy = fix_gnss\<lparr>accuracy := 0\<rparr>"




text \<open>A sample of the string helpers: the enumerators' names and decimal numbers.\<close>

definition H0 :: Helpers where
  "H0 = \<lparr> dataSourceTypeToString =
            (\<lambda>t. case t of GNSS \<Rightarrow> ''GNSS'' | WIFI \<Rightarrow> ''WIFI''
                   | BASE_STATION \<Rightarrow> ''BASE_STATION'' | BLE \<Rightarrow> ''BLE''
                   | INERTIAL \<Rightarrow> ''INERTIAL'' | FUSED \<Rightarrow> ''FUSED'' | UNKNOWN \<Rightarrow> ''UNKNOWN''
                   | GPS \<Rightarrow> ''GPS'' | BEIDOU \<Rightarrow> ''BEIDOU'' | GALILEO \<Rightarrow> ''GALILEO''
                   | GLONASS \<Rightarrow> ''GLONASS'' | IMU \<Rightarrow> ''IMU'' | SENSOR \<Rightarrow> ''SENSOR''
                   | OTHER \<Rightarrow> ''OTHER''),
          weightStrategyToString =
            (\<lambda>s. case s of EQUAL_WEIGHT \<Rightarrow> ''EQUAL_WEIGHT''
                   | ACCURACY_BASED \<Rightarrow> ''ACCURACY_BASED'' | CUSTOM \<Rightarrow> ''CUSTOM''),
          fusionStrategyToString =
            (\<lambda>s. case s of PRIORITY_BASED \<Rightarrow> ''PRIORITY_BASED''
                   | WEIGHTED_AVERAGE \<Rightarrow> ''WEIGHTED_AVERAGE'' | ADAPTIVE \<Rightarrow> ''ADAPTIVE''),
          sizeToString = show_nat,
          intToString = show_int \<rparr>"

text \<open>The two fixes of the spec's first scenario: a satellite fix and a Wi-Fi fix.\<close>

definition fix_sat :: LocationInfo where
  "fix_sat = LocationInfo_default
     \<lparr> latitude := 39.9042, longitude := 116.4074, accuracy := 5, timestamp := 1000,
       sourceType := GNSS, status := VALID \<rparr>"

definition fix_wifi :: LocationInfo where
  "fix_wifi = LocationInfo_default
     \<lparr> latitude := 39.9043, longitude := 116.4076, accuracy := 20, timestamp := 1050,
       sourceType := WIFI, status := VALID \<rparr>"

text \<open>Five copies of the GNSS fix as a detector's context, and the fix marked as an
  anomaly.\<close>

definition context5 :: "LocationInfo list" where
  "context5 = [fix_gnss, fix_gnss, fix_gnss, fix_gnss, fix_gnss]"

definition fix_marked :: LocationInfo where
  "fix_marked = fix_gnss\<lparr>status := ANOMALY\<rparr>"

text \<open>
  The calls that reach the state of a stage: processing a location at a clock reading,
  \<^verbatim>\<open>setEnabled\<close>, and the outlier detector's \<^verbatim>\<open>setThresholdFactor\<close>,
  \<^verbatim>\<open>setMaxHistorySize\<close> and \<^verbatim>\<open>clearHistory\<close>.
\<close>

datatype StageCall =
    CallProcess int LocationInfo
  | CallSetEnabled bool
  | CallSetThresholdFactor real
  | CallSetMaxHistorySize nat
  | CallClearHistory

fun stageCall :: "DataProcessor \<Rightarrow> StageCall \<Rightarrow> DataProcessor" where
  "stageCall p (CallProcess now location) = snd (process now p location)"
| "stageCall p (CallSetEnabled b) = p\<lparr>enabled := b\<rparr>"
| "stageCall p (CallSetThresholdFactor x) = p\<lparr>kind := setThresholdFactor x (kind p)\<rparr>"
| "stageCall p (CallSetMaxHistorySize n) = p\<lparr>kind := setMaxHistorySize n (kind p)\<rparr>"
| "stageCall p CallClearHistory = p\<lparr>kind := clearHistory (kind p)\<rparr>"

text \<open>The invariant of the outlier detector: its history holds valid fixes only.\<close>

definition outlierInv :: "ProcessorKind \<Rightarrow> bool" where
  "outlierInv k \<longleftrightarrow>
     (case k of OutlierDetectionProcessor f m n h \<Rightarrow> \<forall>l\<in>set h. isValid l | _ \<Rightarrow> False)"

text \<open>No key and no value of the extras contains a comma.\<close>

definition comma_free :: "extras_map \<Rightarrow> bool" where
  "comma_free m \<longleftrightarrow> (\<forall>(k, v)\<in>set m. CHR '','' \<notin> set k \<and> CHR '','' \<notin> set v)"

text \<open>The location that the weighted-average engine, as constructed, fuses from the two
  fixes of the first scenario when the clock reads 2000.\<close>

definition fused_sat_wifi :: "(real \<Rightarrow> real) \<Rightarrow> Helpers \<Rightarrow> LocationInfo" where
  "fused_sat_wifi rnd H =
     the (fuse H new_DataFusion (WeightedAverage_doFuse rnd H 2000 new_WeightedAverageFusion)
            [fix_sat, fix_wifi])"























section \<open>Properties\<close>

subsection \<open>Validity of a fix\<close>

text \<open>
  C7 (as the code has it). A fix is valid exactly when its status is \<open>VALID\<close>, its latitude
  lies in \<open>[-90, 90]\<close>, its longitude in \<open>[-180, 180]\<close>, its accuracy is at least \<open>0\<close> and its
  capture time is greater than \<open>0\<close>.
\<close>

theorem C7_isValid_iff:
  "isValid loc \<longleftrightarrow>
     status loc = VALID \<and> latitude loc \<in> {-90..90} \<and> longitude loc \<in> {-180..180} \<and>
     0 \<le> accuracy loc \<and> 0 < timestamp loc"
  by (auto simp: isValid_def)

theorem C7_isValid_witness: "isValid fix_gnss"
  using C7_isValid_iff [of fix_gnss]
  by (simp add: fix_gnss_def LocationInfo_default_def)

text \<open>
  With "accuracy strictly greater than 0" the equivalence fails: the fix with accuracy
  \<open>0\<close> is valid.
\<close>

theorem C7_counterexample:
  "\<not> (isValid fix_zero_accuracy \<longleftrightarrow>
        status fix_zero_accuracy = VALID \<and>
        latitude fix_zero_accuracy \<in> {-90..90} \<and>
        longitude fix_zero_accuracy \<in> {-180..180} \<and>
        0 < accuracy fix_zero_accuracy \<and> 0 < timestamp fix_zero_accuracy)"
  by (simp add: isValid_def fix_zero_accuracy_def fix_gnss_def LocationInfo_default_def)

subsection \<open>A stage is atomic on error\<close>

text \<open>The call of a stage of the chain returns.\<close>

lemma stage_returns:
  "\<exists>r k'. BaseDataProcessor_process (enabled p) (doProcess now) (kind p) location
            = (Returns (Some r), k')"
  by (cases "kind p")
     (auto simp: BaseDataProcessor_process_def split: prod.splits)

text \<open>
  C10 (as the code has it). When the stage is disabled, or its \<^verbatim>\<open>doProcess\<close> returns, or
  \<^verbatim>\<open>doProcess\<close> throws an exception derived from \<^verbatim>\<open>std::exception\<close>,
  \<^verbatim>\<open>BaseDataProcessor::process\<close> returns a location (never \<^verbatim>\<open>nullptr\<close>): the input when
  the stage is disabled, when \<^verbatim>\<open>doProcess\<close> reports failure and when it throws such an
  exception, and the processed copy when \<^verbatim>\<open>doProcess\<close> reports success. When the stage
  is enabled and \<^verbatim>\<open>doProcess\<close> throws anything else, \<^verbatim>\<open>process\<close> does not return: the
  exception goes on to the caller.
\<close>

theorem C10_process_atomic:
  "((\<not> en \<or> (\<exists>v st'. dp st loc = (Returns v, st')) \<or> (\<exists>st'. dp st loc = (ThrowsStd, st')))
      \<longrightarrow> (\<exists>r. fst (BaseDataProcessor_process en dp st loc) = Returns (Some r))) \<and>
   ((\<not> en \<or> (\<exists>l st'. dp st loc = (Returns (False, l), st')) \<or> (\<exists>st'. dp st loc = (ThrowsStd, st')))
      \<longrightarrow> fst (BaseDataProcessor_process en dp st loc) = Returns (Some loc)) \<and>
   (en \<and> (\<exists>st'. dp st loc = (Returns (True, l), st'))
      \<longrightarrow> fst (BaseDataProcessor_process en dp st loc) = Returns (Some l)) \<and>
   (en \<and> (\<exists>st'. dp st loc = (ThrowsOther, st'))
      \<longrightarrow> fst (BaseDataProcessor_process en dp st loc) = ThrowsOther)"
  by (auto simp: BaseDataProcessor_process_def split: prod.splits call.splits)

theorem C10_process_atomic_witness:
  "fst (BaseDataProcessor_process True (\<lambda>st l. (ThrowsStd, st)) () fix_gnss)
     = Returns (Some fix_gnss) \<and>
   fst (BaseDataProcessor_process True
          (\<lambda>st l. (Returns (False, l\<lparr>status := ANOMALY\<rparr>), st)) () fix_gnss)
     = Returns (Some fix_gnss) \<and>
   fst (BaseDataProcessor_process False
          (\<lambda>st l. (Returns (True, l\<lparr>status := ANOMALY\<rparr>), st)) () fix_gnss)
     = Returns (Some fix_gnss) \<and>
   fst (BaseDataProcessor_process True
          (\<lambda>st l. (Returns (True, l\<lparr>status := ANOMALY\<rparr>), st)) () fix_gnss)
     = Returns (Some (fix_gnss\<lparr>status := ANOMALY\<rparr>)) \<and>
   fst (BaseDataProcessor_process True (\<lambda>st l. (ThrowsOther, st)) () fix_gnss) = ThrowsOther"
  using C10_process_atomic [of True "\<lambda>st l. (ThrowsStd, st)" "()" fix_gnss]
        C10_process_atomic
          [of True "\<lambda>st l. (Returns (False, l\<lparr>status := ANOMALY\<rparr>), st)" "()" fix_gnss]
        C10_process_atomic
          [of False "\<lambda>st l. (Returns (True, l\<lparr>status := ANOMALY\<rparr>), st)" "()" fix_gnss]
        C10_process_atomic
          [of True "\<lambda>st l. (Returns (True, l\<lparr>status := ANOMALY\<rparr>), st)" "()" fix_gnss
              "fix_gnss\<lparr>status := ANOMALY\<rparr>"]
        C10_process_atomic [of True "\<lambda>st l. (ThrowsOther, st)" "()" fix_gnss]
  by simp

text \<open>
  "Always returns a location" and "returns the input whenever \<^verbatim>\<open>doProcess\<close> throws" fail
  for a \<^verbatim>\<open>doProcess\<close> that throws something not derived from \<^verbatim>\<open>std::exception\<close>: on an
  enabled stage the call of \<^verbatim>\<open>process\<close> ends in that exception and returns no location.
\<close>

theorem C10_counterexample:
  "fst (BaseDataProcessor_process True (\<lambda>st l. (ThrowsOther, st)) () fix_gnss) = ThrowsOther \<and>
   fst (BaseDataProcessor_process True (\<lambda>st l. (ThrowsOther, st)) () fix_gnss)
     \<noteq> Returns (Some fix_gnss)"
  by (simp add: BaseDataProcessor_process_def)

subsection \<open>The ingest queue\<close>




subsection \<open>Weighted-average fusion and the bounding box\<close>

text \<open>There is one weight for each contributor, and \<^verbatim>\<open>fuse\<close> passes on the coordinates,
  accuracy and time that \<^verbatim>\<open>doFuse\<close> computed.\<close>

lemma calculateWeights_length: "length (calculateWeights rnd w xs) = length xs"
  by (simp add: calculateWeights_def Let_def split: WeightStrategy.splits)

lemma fuse_fields:
  assumes "fuse H f doFuse locations = Some r"
  shows "\<exists>r0. doFuse (filter (\<lambda>l. isValid l \<and> status l \<noteq> ANOMALY) locations) = Returned (Some r0) \<and>
          latitude r = latitude r0 \<and> longitude r = longitude r0 \<and> altitude r = altitude r0 \<and>
          accuracy r = accuracy r0 \<and> timestamp r = timestamp r0 \<and>
          speed r = speed r0 \<and> direction r = direction r0 \<and>
          status r = NORMAL \<and> sourceType r = FUSED \<and>
          minRequiredSources f \<le> length (filter (\<lambda>l. isValid l \<and> status l \<noteq> ANOMALY) locations)"
  using assms
  by (auto simp: fuse_def Let_def setExtra_def split: if_splits outcome.splits option.splits)




















text \<open>Rounding to the nearest integer moves no integer, respects an integer lower bound
  and moves a number by at most one half; so \<open>binary64\<close> is a rounding function as
  described by \<open>rounds_nearest\<close>.\<close>

lemma round_half_even_of_int: "round_half_even (of_int n) = n"
  by (simp add: round_half_even_def)








subsection \<open>Weighted-average fusion in binary64 arithmetic\<close>














subsection \<open>The time of a fused location\<close>

text \<open>The sort keeps the elements, and its head is one that no element precedes.\<close>

lemma set_insert_sorted: "set (insert_sorted before x ys) = insert x (set ys)"
  by (induction ys) auto

lemma set_std_sort: "set (std_sort before xs) = set xs"
  by (induction xs) (auto simp: std_sort_def set_insert_sorted)

lemma std_sort_Nil_iff: "std_sort before xs = [] \<longleftrightarrow> xs = []"
  using set_std_sort [of before xs] by (metis set_empty)

lemma hd_insert_sorted_minimal:
  assumes asym: "\<And>a b. before a b \<Longrightarrow> \<not> before b a"
      and ntrans: "\<And>a b c. \<not> before a b \<Longrightarrow> \<not> before b c \<Longrightarrow> \<not> before a c"
      and ys: "ys \<noteq> [] \<Longrightarrow> \<forall>z\<in>set ys. \<not> before z (hd ys)"
  shows "\<forall>z\<in>set (insert_sorted before x ys). \<not> before z (hd (insert_sorted before x ys))"
proof (cases ys)
  case Nil
  then show ?thesis using asym by auto
next
  case (Cons y ys')
  show ?thesis
  proof (cases "before y x")
    case True
    then have "\<not> before x y" by (rule asym)
    with True Cons ys show ?thesis by (auto simp: set_insert_sorted)
  next
    case False
    have "\<not> before z x" if "z \<in> set ys" for z
    proof -
      from ys Cons that have "\<not> before z y" by auto
      with False show ?thesis by (rule ntrans [rotated -1, of y x z]) 
    qed
    moreover have "\<not> before x x" using asym by blast
    ultimately show ?thesis using False Cons by auto
  qed
qed

lemma hd_std_sort_minimal:
  assumes asym: "\<And>a b. before a b \<Longrightarrow> \<not> before b a"
      and ntrans: "\<And>a b c. \<not> before a b \<Longrightarrow> \<not> before b c \<Longrightarrow> \<not> before a c"
  shows "xs \<noteq> [] \<Longrightarrow> \<forall>z\<in>set (std_sort before xs). \<not> before z (hd (std_sort before xs))"
proof (induction xs)
  case Nil
  then show ?case by simp
next
  case (Cons x xs)
  have "std_sort before (x # xs) = insert_sorted before x (std_sort before xs)"
    by (simp add: std_sort_def)
  moreover have "\<forall>z\<in>set (insert_sorted before x (std_sort before xs)).
          \<not> before z (hd (insert_sorted before x (std_sort before xs)))"
  proof (rule hd_insert_sorted_minimal [OF asym ntrans])
    assume "std_sort before xs \<noteq> []"
    then have "xs \<noteq> []" by (simp add: std_sort_Nil_iff)
    then show "\<forall>z\<in>set (std_sort before xs). \<not> before z (hd (std_sort before xs))"
      by (rule Cons.IH)
  qed auto
  ultimately show ?case by simp
qed

lemma priorityBefore_asym: "priorityBefore sp a b \<Longrightarrow> \<not> priorityBefore sp b a"
  by (auto simp: priorityBefore_def Let_def split: if_splits)

lemma priorityBefore_ntrans:
  "\<not> priorityBefore sp a b \<Longrightarrow> \<not> priorityBefore sp b c \<Longrightarrow> \<not> priorityBefore sp a c"
  by (auto simp: priorityBefore_def Let_def split: if_splits)

lemma PriorityBased_doFuse_selected:
  assumes "xs \<noteq> []"
  shows "\<exists>sel\<in>set xs. (\<forall>l\<in>set xs. \<not> priorityBefore sp l sel) \<and>
           PriorityBased_doFuse H sp xs =
             Returned (Some
               (setExtra ''selectedSourcePriority''
                  (intToString H (getSourcePriority sp (sourceType sel)))
                  (setExtra ''selectedSourceType'' (dataSourceTypeToString H (sourceType sel))
                     (setExtra ''fusionType'' ''PRIORITY_BASED'' sel))))"
proof -
  let ?s = "std_sort (priorityBefore sp) xs"
  from assms have ne: "?s \<noteq> []" by (simp add: std_sort_Nil_iff)
  then obtain sel rest where s: "?s = sel # rest" by (cases ?s) auto
  have "\<forall>z\<in>set ?s. \<not> priorityBefore sp z (hd ?s)"
    using priorityBefore_asym priorityBefore_ntrans assms
    by (intro hd_std_sort_minimal) blast+
  moreover have "set xs = set ?s" by (simp add: set_std_sort)
  ultimately have min: "\<forall>l\<in>set xs. \<not> priorityBefore sp l sel"
    by (simp add: s)
  have "sel \<in> set xs" using s set_std_sort [of "priorityBefore sp" xs] by auto
  with min s show ?thesis by (auto simp: PriorityBased_doFuse_def)
qed


lemma weighted_timestamp:
  assumes "fuse H f (WeightedAverage_doFuse rnd H now w) locations = Some r"
  shows "timestamp r = now"
  using fuse_fields [OF assms]
  by (auto simp: WeightedAverage_doFuse_def Let_def setExtra_def)

lemma filter_valid: "filter (\<lambda>l. isValid l \<and> status l \<noteq> ANOMALY) xs = filter isValid xs"
  by (rule filter_cong) (auto simp: isValid_def)

lemma priority_timestamp:
  assumes "fuse H f (PriorityBased_doFuse H sp) locations = Some r"
  shows "\<exists>sel\<in>set locations. isValid sel \<and> timestamp r = timestamp sel \<and>
           (\<forall>l\<in>set locations. isValid l \<longrightarrow> \<not> priorityBefore sp l sel)"
proof -
  let ?v = "filter isValid locations"
  from fuse_fields [OF assms] obtain r0 where
    r0: "PriorityBased_doFuse H sp ?v = Returned (Some r0)" and t: "timestamp r = timestamp r0"
    by (auto simp: filter_valid)
  have ne: "?v \<noteq> []"
  proof
    assume "?v = []"
    with r0 show False by (simp add: PriorityBased_doFuse_def std_sort_def)
  qed
  from PriorityBased_doFuse_selected [OF ne, of sp H] r0 obtain sel where
    "sel \<in> set ?v" "\<forall>l\<in>set ?v. \<not> priorityBefore sp l sel" "timestamp r0 = timestamp sel"
    by (auto simp: setExtra_def)
  with t show ?thesis by auto
qed


text \<open>
  C6 (as the code has it). The time of a location returned by weighted-average fusion is
  the clock reading at fusion, however the arithmetic rounds. The time of a location returned by priority-based fusion
  is the time of the selected contributor, a valid one that no valid contributor
  precedes in priority order; it is at most the greatest contributor time.
\<close>

theorem C6_fused_timestamp:
  "(fuse H f (WeightedAverage_doFuse rnd H now w) locations = Some r \<longrightarrow> timestamp r = now) \<and>
   (fuse H f (PriorityBased_doFuse H sp) locations = Some r' \<longrightarrow>
      (\<exists>sel\<in>set locations. isValid sel \<and> timestamp r' = timestamp sel \<and>
         (\<forall>l\<in>set locations. isValid l \<longrightarrow> \<not> priorityBefore sp l sel)) \<and>
      timestamp r' \<le> Max (timestamp ` set locations))"
proof -
  have "timestamp r' \<le> Max (timestamp ` set locations)"
    if "fuse H f (PriorityBased_doFuse H sp) locations = Some r'"
  proof -
    from priority_timestamp [OF that] obtain sel where "sel \<in> set locations" "timestamp r' = timestamp sel"
      by blast
    then show ?thesis by (auto intro: Max_ge)
  qed
  then show ?thesis using weighted_timestamp priority_timestamp by blast
qed

theorem C6_fused_timestamp_witness:
  "\<exists>r r'. fuse H0 new_DataFusion (WeightedAverage_doFuse exact H0 2000 new_WeightedAverageFusion)
             [fix_sat, fix_wifi] = Some r \<and> timestamp r = 2000 \<and>
          fuse H0 new_DataFusion (PriorityBased_doFuse H0 defaultPriorities)
             [fix_wifi, fix_sat] = Some r' \<and> timestamp r' \<le> 1050"
proof -
  obtain r where r: "fuse H0 new_DataFusion
      (WeightedAverage_doFuse exact H0 2000 new_WeightedAverageFusion) [fix_sat, fix_wifi] = Some r"
    by (simp add: fuse_def new_DataFusion_def WeightedAverage_doFuse_def Let_def isValid_def
          fix_sat_def fix_wifi_def LocationInfo_default_def)
  obtain r' where r': "fuse H0 new_DataFusion
      (PriorityBased_doFuse H0 defaultPriorities) [fix_wifi, fix_sat] = Some r'"
    by (simp add: fuse_def new_DataFusion_def PriorityBased_doFuse_def Let_def isValid_def
          fix_sat_def fix_wifi_def LocationInfo_default_def std_sort_def
          priorityBefore_def getSourcePriority_def defaultPriorities_def)
  have m: "Max (timestamp ` set [fix_wifi, fix_sat]) = 1050"
    by (simp add: fix_sat_def fix_wifi_def LocationInfo_default_def)
  from C6_fused_timestamp [of H0 new_DataFusion exact 2000 new_WeightedAverageFusion
         "[fix_sat, fix_wifi]" r defaultPriorities r'] r
  have "timestamp r = 2000" by blast
  moreover
  from C6_fused_timestamp [of H0 new_DataFusion exact 2000 new_WeightedAverageFusion
         "[fix_wifi, fix_sat]" r defaultPriorities r'] r' m
  have "timestamp r' \<le> 1050" by simp
  ultimately show ?thesis using r r' by blast
qed

text \<open>
  The fused time is not the greatest contributor time: fusing the satellite fix (time
  1000) and the Wi-Fi fix (time 1050) when the clock reads 2000 gives time 2000 by
  weighted average, and time 1000 (the satellite fix's) by priority.
\<close>

theorem C6_counterexample:
  "map_option timestamp (fuse H0 new_DataFusion
      (WeightedAverage_doFuse exact H0 2000 new_WeightedAverageFusion) [fix_sat, fix_wifi]) = Some 2000 \<and>
   map_option timestamp (fuse H0 new_DataFusion
      (PriorityBased_doFuse H0 defaultPriorities) [fix_wifi, fix_sat]) = Some 1000 \<and>
   Max (timestamp ` set [fix_sat, fix_wifi]) = 1050"
  by (simp add: fuse_def new_DataFusion_def WeightedAverage_doFuse_def PriorityBased_doFuse_def
        Let_def isValid_def fix_sat_def fix_wifi_def LocationInfo_default_def setExtra_def
        std_sort_def priorityBefore_def getSourcePriority_def defaultPriorities_def)

subsection \<open>Fusion of a single fix\<close>




subsection \<open>The confidence of the statistical detector\<close>

lemma trimHistory_short: "length h \<le> m \<Longrightarrow> trimHistory m h = h"
  by (subst trimHistory.simps) simp

lemma mean_const5: "calculateMean [c, c, c, c, c] = c"
  by (simp add: calculateMean_def calculateAverage_def)

lemma stddev_const5: "calculateStandardDeviation2 [c, c, c, c, c] c = 0"
  by (simp add: calculateStandardDeviation2_def)

text \<open>A location that agrees with five equal context fixes in latitude, longitude and
  accuracy: every z-score is \<open>0\<close>, the verdict is "normal", the confidence is
  \<open>(0 - 2) / 2\<close>, and the location joins the history.\<close>

lemma Statistical_doDetectAnomaly_const5:
  assumes "latitude x = latitude c" "longitude x = longitude c" "accuracy x = accuracy c"
  shows "Statistical_doDetectAnomaly new_StatisticalAnomalyDetector x [c, c, c, c, c] =
     (Returned \<lparr> isAnomaly = False, confidence = -1, anomalyInfo = [] \<rparr>,
      new_StatisticalAnomalyDetector\<lparr>sd_history := [x]\<rparr>)"
proof -
  have d: "sd_history new_StatisticalAnomalyDetector = []"
          "sd_minSampleSize new_StatisticalAnomalyDetector = 5"
          "zScoreThreshold new_StatisticalAnomalyDetector = 2"
          "historySize new_StatisticalAnomalyDetector = 50"
    by (simp_all add: new_StatisticalAnomalyDetector_def)
  show ?thesis
    unfolding Statistical_doDetectAnomaly_def
    apply (simp only: d append_Nil2 list.map assms mean_const5 stddev_const5 Let_def list.size)
    apply (simp add: zScore_def addLocationToHistory_def d trimHistory_short)
    done
qed

text \<open>
  C8 (the code at the failing input). With the constructor's settings, a fix that equals
  all five context fixes is judged normal with confidence \<open>-1\<close>.
\<close>

theorem C8_statistical_confidence_negative:
  "Statistical_detectAnomaly new_StatisticalAnomalyDetector fix_gnss context5 =
     (\<lparr> isAnomaly = False, confidence = -1, anomalyInfo = [] \<rparr>,
      new_StatisticalAnomalyDetector\<lparr>sd_history := [fix_gnss]\<rparr>)"
  by (simp add: Statistical_detectAnomaly_def detectAnomaly_def context5_def
        Statistical_doDetectAnomaly_const5)
     (simp add: new_StatisticalAnomalyDetector_def)

subsection \<open>What enters the detectors' histories\<close>

lemma set_trimHistory: "set (trimHistory m h) \<subseteq> set h"
proof (induction m h rule: trimHistory.induct)
  case (1 maxSize h)
  show ?case
  proof (cases "length h > maxSize")
    case True
    then have "h \<noteq> []" by auto
    with 1 True have "set (trimHistory maxSize (tl h)) \<subseteq> set h"
      by (auto dest: list.set_sel(2))
    with True show ?thesis by (subst trimHistory.simps) simp
  next
    case False
    then show ?thesis by (subst trimHistory.simps) simp
  qed
qed

lemma mem_trimHistory: "x \<in> set (trimHistory m h) \<Longrightarrow> x \<in> set h"
  using set_trimHistory by blast

lemma outlierInv_doProcess: "outlierInv k \<Longrightarrow> outlierInv (snd (doProcess now k loc))"
  by (cases k)
     (auto simp: outlierInv_def OutlierDetection_doProcess_def Let_def
           split: prod.splits if_splits dest!: mem_trimHistory)

lemma outlierInv_process: "outlierInv (kind p) \<Longrightarrow> outlierInv (kind (snd (process now p loc)))"
  using outlierInv_doProcess [of "kind p" now loc]
  by (auto simp: process_def BaseDataProcessor_process_def split: prod.splits call.splits if_splits)

lemma outlierInv_stageCall: "outlierInv (kind p) \<Longrightarrow> outlierInv (kind (stageCall p c))"
proof (cases c)
  case (CallProcess now loc)
  then show "outlierInv (kind p) \<Longrightarrow> ?thesis" by (simp add: outlierInv_process)
next
  case (CallSetMaxHistorySize n)
  then show "outlierInv (kind p) \<Longrightarrow> ?thesis"
    by (cases "kind p") (auto simp: outlierInv_def Let_def dest!: mem_trimHistory)
qed (cases "kind p"; auto simp: outlierInv_def)+

lemma outlierInv_foldl: "outlierInv (kind p) \<Longrightarrow> outlierInv (kind (foldl stageCall p cs))"
  by (induction cs arbitrary: p) (auto simp: outlierInv_stageCall)


lemma outlierInv_new: "outlierInv (kind new_OutlierDetectionProcessor)"
  by (simp add: outlierInv_def new_OutlierDetectionProcessor_def)

lemma outlierInv_history: "outlierInv k \<Longrightarrow> l \<in> set (history k) \<Longrightarrow> isValid l"
  by (cases k) (auto simp: outlierInv_def)

lemma Outlier_flagged_not_added:
  "status (snd (fst (OutlierDetection_doProcess f m n h location))) = ANOMALY \<Longrightarrow>
   snd (OutlierDetection_doProcess f m n h location) = h"
  by (auto simp: OutlierDetection_doProcess_def Let_def isValid_def
           split: prod.splits if_splits)

lemma Statistical_flagged_not_added:
  "isAnomaly (fst (Statistical_detectAnomaly d location context)) \<Longrightarrow>
   sd_history (snd (Statistical_detectAnomaly d location context)) = sd_history d"
  unfolding Statistical_detectAnomaly_def detectAnomaly_def Statistical_doDetectAnomaly_def
  by (auto simp: AnomalyResult_init_def Let_def split: if_splits)

text \<open>
  C3 (as the code has it). Whatever fixes the outlier-detection stage processes and
  however it is reconfigured, its history holds valid fixes only, so none whose status
  is Anomaly; a fix that the stage marks as an anomaly is not added to its history; and
  the statistical anomaly detector leaves its history as it was when it judges a fix
  anomalous.
\<close>

theorem C3_history_free_of_flagged:
  "(\<forall>l\<in>set (history (kind (foldl stageCall new_OutlierDetectionProcessor calls))).
      isValid l \<and> status l \<noteq> ANOMALY) \<and>
   (status (snd (fst (OutlierDetection_doProcess f m n h location))) = ANOMALY \<longrightarrow>
      snd (OutlierDetection_doProcess f m n h location) = h) \<and>
   (isAnomaly (fst (Statistical_detectAnomaly d location context)) \<longrightarrow>
      sd_history (snd (Statistical_detectAnomaly d location context)) = sd_history d)"
proof -
  have "outlierInv (kind (foldl stageCall new_OutlierDetectionProcessor calls))"
    by (rule outlierInv_foldl [OF outlierInv_new])
  then have "\<forall>l\<in>set (history (kind (foldl stageCall new_OutlierDetectionProcessor calls))).
      isValid l \<and> status l \<noteq> ANOMALY"
    using outlierInv_history by (fastforce simp: isValid_def)
  then show ?thesis
    using Outlier_flagged_not_added Statistical_flagged_not_added by blast
qed

theorem C3_history_free_of_flagged_witness:
  "history (kind (foldl stageCall new_OutlierDetectionProcessor
      [CallProcess 1000 fix_gnss, CallProcess 1000 fix_marked])) = [fix_gnss] \<and>
   isValid fix_gnss \<and> status fix_gnss \<noteq> ANOMALY"
proof -
  have h: "history (kind (foldl stageCall new_OutlierDetectionProcessor
      [CallProcess 1000 fix_gnss, CallProcess 1000 fix_marked])) = [fix_gnss]"
    by (simp add: new_OutlierDetectionProcessor_def process_def BaseDataProcessor_process_def
          OutlierDetection_doProcess_def isValid_def fix_gnss_def fix_marked_def
          LocationInfo_default_def)
  from C3_history_free_of_flagged
         [of "[CallProcess 1000 fix_gnss, CallProcess 1000 fix_marked]"]
  show ?thesis unfolding h by simp
qed

text \<open>
  The statistical anomaly detector does not look at the status of its input: a fix
  already marked as an anomaly that agrees with the context is judged normal and joins
  the history.
\<close>

theorem C3_counterexample:
  "sd_history (snd (Statistical_detectAnomaly new_StatisticalAnomalyDetector fix_marked context5))
     = [fix_marked] \<and> status fix_marked = ANOMALY"
  by (simp add: Statistical_detectAnomaly_def detectAnomaly_def context5_def
        Statistical_doDetectAnomaly_const5 fix_marked_def)
     (simp add: new_StatisticalAnomalyDetector_def)

subsection \<open>The file store's line does not give back every location\<close>

text \<open>No token holds a comma, so no key or value that the parser stores holds one.\<close>

lemma getline_tokens_no_comma: "t \<in> set (getline_tokens s) \<Longrightarrow> CHR '','' \<notin> set t"
proof (induction s arbitrary: t rule: getline_tokens.induct)
  case (1 s)
  show ?case
  proof (cases "s = []")
    case True
    with "1.prems" show ?thesis by (simp add: getline_tokens.simps)
  next
    case False
    let ?tok = "takeWhile (\<lambda>c. c \<noteq> CHR '','') s" and ?rest = "dropWhile (\<lambda>c. c \<noteq> CHR '','') s"
    have tok: "CHR '','' \<notin> set ?tok" by (auto dest: set_takeWhileD)
    show ?thesis
    proof (cases ?rest)
      case Nil
      with False "1.prems" tok show ?thesis
        by (subst (asm) getline_tokens.simps) (simp add: Let_def)
    next
      case (Cons c rest')
      with False "1.prems" have "t = ?tok \<or> t \<in> set (getline_tokens rest')"
        by (subst (asm) getline_tokens.simps) (simp add: Let_def)
      then show ?thesis
      proof
        assume "t = ?tok" with tok show ?thesis by simp
      next
        assume "t \<in> set (getline_tokens rest')"
        with "1.IH" [OF False refl refl Cons] show ?thesis by simp
      qed
    qed
  qed
qed

lemma map_assign_set: "set (map_assign k v m) \<subseteq> insert (k, v) (set m)"
  by (induction m) (auto split: if_splits)

lemma comma_free_map_assign:
  "comma_free m \<Longrightarrow> CHR '','' \<notin> set k \<Longrightarrow> CHR '','' \<notin> set v \<Longrightarrow> comma_free (map_assign k v m)"
  using map_assign_set [of k v m] by (auto simp: comma_free_def)

lemma comma_free_parseExtra:
  assumes "comma_free (extras loc)" "CHR '','' \<notin> set token"
  shows "comma_free (extras (parseExtra token loc))"
proof -
  let ?kv = "take (length token - 2) (drop 1 token)"
  have kv: "set ?kv \<subseteq> set token"
    using set_take_subset [of "length token - 2" "drop 1 token"] set_drop_subset [of 1 token]
    by blast
  have "CHR '','' \<notin> set (take a ?kv)" for a
    using kv assms(2) set_take_subset [of a ?kv] by blast
  moreover have "CHR '','' \<notin> set (drop a ?kv)" for a
    using kv assms(2) set_drop_subset [of a ?kv] by blast
  ultimately have "comma_free (map_assign (take a ?kv) (drop b ?kv) (extras loc))" for a b
    using assms(1) by (intro comma_free_map_assign)
  then show ?thesis
    using assms(1) unfolding parseExtra_def Let_def setExtra_def
    by (simp del: take_take One_nat_def)
qed

lemma comma_free_foldl_parseExtra:
  "comma_free (extras loc) \<Longrightarrow> \<forall>t\<in>set tokens. CHR '','' \<notin> set t \<Longrightarrow>
   comma_free (extras (foldl (\<lambda>l t. parseExtra t l) loc tokens))"
  by (induction tokens arbitrary: loc) (auto simp: comma_free_parseExtra)

lemma parseFixed_result:
  "parseFixed fs tokens loc = Returned (loc', rest) \<Longrightarrow>
   (\<forall>f\<in>set fs. \<forall>t l l'. f t l = Some l' \<longrightarrow> extras l' = extras l) \<Longrightarrow>
   extras loc' = extras loc \<and> set rest \<subseteq> set tokens"
proof (induction fs tokens loc rule: parseFixed.induct)
  case (3 f fs token tokens location)
  then show ?case by (auto split: option.splits) 
qed auto

lemma fixedFields_extras:
  "\<forall>f\<in>set (fixedFields L). \<forall>t l l'. f t l = Some l' \<longrightarrow> extras l' = extras l"
  by (auto simp: fixedFields_def)

lemma deserializeLocation_comma_free:
  assumes "deserializeLocation L data = Returned loc"
  shows "comma_free (extras loc)"
proof -
  from assms obtain l0 rest where
    p: "parseFixed (fixedFields L) (getline_tokens data) LocationInfo_default = Returned (l0, rest)"
    and loc: "loc = foldl (\<lambda>l t. parseExtra t l) l0 rest"
    by (auto simp: deserializeLocation_def split: outcome.splits)
  from parseFixed_result [OF p fixedFields_extras]
  have "extras l0 = []" "set rest \<subseteq> set (getline_tokens data)"
    by (simp_all add: LocationInfo_default_def)
  then have "comma_free (extras l0)" "\<forall>t\<in>set rest. CHR '','' \<notin> set t"
    using getline_tokens_no_comma by (auto simp: comma_free_def)
  then show ?thesis unfolding loc by (rule comma_free_foldl_parseExtra)
qed


text \<open>The fused location has a \<^verbatim>\<open>weights\<close> extra, and its value holds a comma.\<close>

lemma map_assign_has: "(k, v) \<in> set (map_assign k v m)"
  by (induction m) auto

lemma map_assign_keeps: "(k, v) \<in> set m \<Longrightarrow> k \<noteq> k' \<Longrightarrow> (k, v) \<in> set (map_assign k' v' m)"
  by (induction m) auto

lemma join_comma_has_comma: "CHR '','' \<in> set (join_comma (a # b # rest))"
  by simp

lemma weightInfo_has_comma:
  "CHR '','' \<in> set (weightInfo H [l1, l2] (calculateWeights rnd w [l1, l2]))"
proof -
  have "length (calculateWeights rnd w [l1, l2]) = 2" by (simp add: calculateWeights_length)
  then obtain a b where "calculateWeights rnd w [l1, l2] = [a, b]"
    by (cases "calculateWeights rnd w [l1, l2]"; simp)
       (metis Suc_length_conv length_0_conv)
  then show ?thesis by (simp add: weightInfo_def)
qed

lemma fused_sat_wifi_weights:
  "fuse H new_DataFusion (WeightedAverage_doFuse rnd H 2000 new_WeightedAverageFusion)
     [fix_sat, fix_wifi] = Some (fused_sat_wifi rnd H) \<and>
   (''weights'', weightInfo H [fix_sat, fix_wifi]
                  (calculateWeights rnd new_WeightedAverageFusion [fix_sat, fix_wifi]))
     \<in> set (extras (fused_sat_wifi rnd H))"
proof -
  have v: "filter (\<lambda>l. isValid l \<and> status l \<noteq> ANOMALY) [fix_sat, fix_wifi] = [fix_sat, fix_wifi]"
    by (simp add: isValid_def fix_sat_def fix_wifi_def LocationInfo_default_def)
  show ?thesis
    unfolding fused_sat_wifi_def fuse_def v
    by (simp add: new_DataFusion_def WeightedAverage_doFuse_def Let_def setExtra_def
          map_assign_has map_assign_keeps)
qed

text \<open>
  C4 (the code at the failing input). Whatever text the library writes for a double,
  whatever the enumerators' codes are and however the arithmetic rounds, parsing the
  serialized line of the fused location does not give back that location's extras: the value of its \<^verbatim>\<open>weights\<close> extra holds a
  comma, and the parser splits the line at every comma.
\<close>

theorem C4_fused_location_not_restored:
  "fuse H new_DataFusion (WeightedAverage_doFuse rnd H 2000 new_WeightedAverageFusion)
     [fix_sat, fix_wifi] = Some (fused_sat_wifi rnd H) \<and>
   map_outcome extras (deserializeLocation L (serializeLocation L (fused_sat_wifi rnd H)))
     \<noteq> Returned (extras (fused_sat_wifi rnd H))"
proof -
  have "\<not> comma_free (extras (fused_sat_wifi rnd H))"
    using fused_sat_wifi_weights [of H rnd] weightInfo_has_comma [of H fix_sat fix_wifi rnd]
    by (fastforce simp: comma_free_def)
  moreover have "comma_free x"
    if "map_outcome extras (deserializeLocation L s) = Returned x" for s x
  proof -
    from that obtain loc where "deserializeLocation L s = Returned loc" "x = extras loc"
      by (cases "deserializeLocation L s") auto
    then show ?thesis using deserializeLocation_comma_free by blast
  qed
  ultimately show ?thesis using fused_sat_wifi_weights by metis
qed

subsection \<open>Running the chain twice\<close>



















text \<open>
  On locations that are not valid, at the coordinates of \<open>f\<close> and with given accuracy and
  time, a run changes no stage's state and writes the status and the extras in one fixed
  way: the status is kept or set, and the \<^verbatim>\<open>coordinateSystem\<close> extra is kept or set to
  the name of \<open>t\<close>.
\<close>

lemma invalid_after:
  assumes "\<not> isValid l" "\<forall>s. s \<noteq> VALID \<longrightarrow> S s \<noteq> VALID"
  shows "\<not> isValid (l\<lparr>status := S (status l), extras := e\<rparr>)"
  using assms by (auto simp: isValid_def)

























end
